theory Spec2Isabelle
  imports Main "HOL-Library.AList"
begin

section \<open>Values the configuration module works with\<close>

text \<open>
  Modelled from the spec: the constants \<open>PROTOCOL_MRP\<close>, \<open>PROTOCOL_DMAP\<close> and
  \<open>PROTOCOL_AIRPLAY\<close> are imported from \<open>pyatv.const\<close>, which is not among the sources.
  The spec describes a protocol id as an enumerated, immutable value that is used as a
  dictionary key, so the three constants are the constructors of an enumeration.
\<close>

datatype protocol = PROTOCOL_MRP | PROTOCOL_DMAP | PROTOCOL_AIRPLAY

text \<open>
  \<open>superseeded_by\<close> returns whatever Python's \<open>and\<close> leaves: \<open>False\<close>, \<open>None\<close> or a
  string. These are the Python values involved, with Python's truth test: \<open>None\<close> and
  the empty string are false, every other string is true.
\<close>

datatype pyval = PyNone | PyBool bool | PyStr string

fun truthy :: "pyval \<Rightarrow> bool" where
  "truthy PyNone = False"
| "truthy (PyBool b) = b"
| "truthy (PyStr s) = (s \<noteq> [])"

definition py_not :: "pyval \<Rightarrow> pyval" where
  "py_not a = PyBool (\<not> truthy a)"

definition py_and :: "pyval \<Rightarrow> pyval \<Rightarrow> pyval" where
  "py_and a b = (if truthy a then b else a)"

text \<open>A login id is \<open>None\<close> or a string.\<close>

definition py_of_login_id :: "string option \<Rightarrow> pyval" where
  "py_of_login_id l = (case l of None \<Rightarrow> PyNone | Some s \<Rightarrow> PyStr s)"

section \<open>Services\<close>

text \<open>
  The four service classes. An instance is a record of its class and its attributes:
  \<open>protocol\<close> and \<open>port\<close> are set by \<open>BaseService.__init__\<close>, \<open>login_id\<close> by
  \<open>DmapService.__init__\<close> only. Instances of the other classes have no \<open>login_id\<close>
  attribute in the source; the model never reads the field for them and their
  constructors leave it \<open>None\<close>.
\<close>

datatype service_class =
  BaseService_class | DmapService_class | MrpService_class | AirPlayService_class

record service =
  cls :: service_class
  protocol :: protocol
  port :: int
  login_id :: "string option"

definition BaseService :: "protocol \<Rightarrow> int \<Rightarrow> service" where
  "BaseService protocol' port' =
     \<lparr>cls = BaseService_class, protocol = protocol', port = port', login_id = None\<rparr>"

text \<open>
  \<open>DmapService(login_id, port=None)\<close> stores \<open>port or 3689\<close>: an omitted port and the
  port 0 both become 3689.
\<close>

definition DmapService :: "string option \<Rightarrow> int option \<Rightarrow> service" where
  "DmapService login_id' port' =
     \<lparr>cls = DmapService_class, protocol = PROTOCOL_DMAP,
      port = (case port' of None \<Rightarrow> 3689 | Some n \<Rightarrow> if n = 0 then 3689 else n),
      login_id = login_id'\<rparr>"

definition MrpService :: "int \<Rightarrow> service" where
  "MrpService port' =
     \<lparr>cls = MrpService_class, protocol = PROTOCOL_MRP, port = port', login_id = None\<rparr>"

definition AirPlayService :: "int \<Rightarrow> service" where
  "AirPlayService port' =
     \<lparr>cls = AirPlayService_class, protocol = PROTOCOL_AIRPLAY, port = port',
      login_id = None\<rparr>"

subsection \<open>The methods of each class\<close>

definition BaseService_is_usable :: bool where
  "BaseService_is_usable = False"

definition BaseService_superseeded_by :: "service option \<Rightarrow> pyval" where
  "BaseService_superseeded_by other_service = PyBool False"

definition DmapService_is_usable :: "service \<Rightarrow> bool" where
  "DmapService_is_usable self = (login_id self \<noteq> None)"

text \<open>
  The argument is \<open>None\<close> or a service (\<open>not other_service\<close> is true for \<open>None\<close> only:
  the service classes define neither \<open>__bool__\<close> nor \<open>__len__\<close>). The attribute
  \<open>other_service.login_id\<close> is read only after the class test, so only on a
  \<open>DmapService\<close> when \<open>self\<close> is one.
\<close>

definition DmapService_superseeded_by :: "service \<Rightarrow> service option \<Rightarrow> pyval" where
  "DmapService_superseeded_by self other_service =
     (case other_service of
        None \<Rightarrow> PyBool False
      | Some other \<Rightarrow>
          if cls other \<noteq> cls self \<or> protocol other \<noteq> protocol self
             \<or> port other \<noteq> port self
          then PyBool False
          else py_and (py_not (py_of_login_id (login_id self)))
                 (py_of_login_id (login_id other)))"

definition MrpService_is_usable :: "service \<Rightarrow> bool" where
  "MrpService_is_usable self = True"

subsection \<open>Method resolution\<close>

text \<open>
  \<open>DmapService\<close> overrides both methods, \<open>MrpService\<close> overrides \<open>is_usable\<close> only and
  \<open>AirPlayService\<close> overrides nothing.
\<close>

definition is_usable :: "service \<Rightarrow> bool" where
  "is_usable self =
     (case cls self of
        BaseService_class \<Rightarrow> BaseService_is_usable
      | DmapService_class \<Rightarrow> DmapService_is_usable self
      | MrpService_class \<Rightarrow> MrpService_is_usable self
      | AirPlayService_class \<Rightarrow> BaseService_is_usable)"

definition superseeded_by :: "service \<Rightarrow> service option \<Rightarrow> pyval" where
  "superseeded_by self other_service =
     (case cls self of
        BaseService_class \<Rightarrow> BaseService_superseeded_by other_service
      | DmapService_class \<Rightarrow> DmapService_superseeded_by self other_service
      | MrpService_class \<Rightarrow> BaseService_superseeded_by other_service
      | AirPlayService_class \<Rightarrow> BaseService_superseeded_by other_service)"

section \<open>The device\<close>

text \<open>
  The dictionary \<open>_services\<close> is an association list in insertion order, as a Python
  dictionary is: \<open>map_of\<close> looks a key up, \<open>AList.update\<close> assigns to a key (in place
  when the key is there, at the end otherwise).
\<close>

record AppleTV =
  address :: string
  name :: string
  priv_services :: "(protocol \<times> service) list"
  priv_supported_protocols :: "protocol list"

definition SUPPORTED_PROTOCOLS :: "protocol list" where
  "SUPPORTED_PROTOCOLS = [PROTOCOL_MRP, PROTOCOL_DMAP]"

text \<open>The last argument is the keyword argument \<open>supported_services\<close>, when given.\<close>

definition AppleTV_init :: "string \<Rightarrow> string \<Rightarrow> protocol list option \<Rightarrow> AppleTV" where
  "AppleTV_init address' name' supported_services =
     \<lparr>address = address', name = name', priv_services = [],
      priv_supported_protocols =
        (case supported_services of None \<Rightarrow> SUPPORTED_PROTOCOLS | Some ps \<Rightarrow> ps)\<rparr>"

text \<open>
  \<open>add_service\<close> mutates the device and returns nothing: the model returns the device
  after the call. The source has no \<open>raise\<close>, and every attribute it reads exists on
  every service, so there is no error result.
\<close>

definition add_service :: "AppleTV \<Rightarrow> service \<Rightarrow> AppleTV" where
  "add_service self service =
     (case map_of (priv_services self) (protocol service) of
        Some existing \<Rightarrow>
          if \<not> truthy (superseeded_by existing (Some service)) then self
          else self\<lparr>priv_services :=
                 AList.update (protocol service) service (priv_services self)\<rparr>
      | None \<Rightarrow>
          self\<lparr>priv_services :=
            AList.update (protocol service) service (priv_services self)\<rparr>)"

definition get_service :: "AppleTV \<Rightarrow> protocol \<Rightarrow> service option" where
  "get_service self protocol' = map_of (priv_services self) protocol'"

definition services :: "AppleTV \<Rightarrow> service list" where
  "services self = map snd (priv_services self)"

text \<open>The loop of \<open>usable_service\<close> over the supported protocols.\<close>

fun usable_service_loop ::
  "(protocol \<times> service) list \<Rightarrow> protocol list \<Rightarrow> service option" where
  "usable_service_loop svcs [] = None"
| "usable_service_loop svcs (p # ps) =
     (case map_of svcs p of
        Some s \<Rightarrow> if is_usable s then Some s else usable_service_loop svcs ps
      | None \<Rightarrow> usable_service_loop svcs ps)"

definition usable_service :: "AppleTV \<Rightarrow> service option" where
  "usable_service self =
     usable_service_loop (priv_services self) (priv_supported_protocols self)"

text \<open>The loop of \<open>preferred_service\<close>.\<close>

fun preferred_service_loop ::
  "(protocol \<times> service) list \<Rightarrow> protocol list \<Rightarrow> service option" where
  "preferred_service_loop svcs [] = None"
| "preferred_service_loop svcs (p # ps) =
     (case map_of svcs p of
        Some s \<Rightarrow> Some s
      | None \<Rightarrow> preferred_service_loop svcs ps)"

definition preferred_service :: "AppleTV \<Rightarrow> service option" where
  "preferred_service self =
     preferred_service_loop (priv_services self) (priv_supported_protocols self)"

definition AppleTV_is_usable :: "AppleTV \<Rightarrow> bool" where
  "AppleTV_is_usable self = list_ex is_usable (services self)"

definition airplay_service :: "AppleTV \<Rightarrow> service" where
  "airplay_service self =
     (case map_of (priv_services self) PROTOCOL_AIRPLAY of
        Some s \<Rightarrow> s
      | None \<Rightarrow> AirPlayService 7000)"

text \<open>
  \<open>__eq__\<close> takes any object; what is not an \<open>AppleTV\<close> compares unequal. The method
  also prints the outcome of the address comparison: the result is the returned
  boolean together with the lines written to standard output.
\<close>

datatype other_object = AppleTV_instance AppleTV | Not_AppleTV

definition str_of_bool :: "bool \<Rightarrow> string" where
  "str_of_bool b = (if b then ''True'' else ''False'')"

definition AppleTV_eq :: "AppleTV \<Rightarrow> other_object \<Rightarrow> bool \<times> string list" where
  "AppleTV_eq self other =
     (case other of
        AppleTV_instance other' \<Rightarrow>
          (address self = address other',
           [str_of_bool (address self = address other')])
      | Not_AppleTV \<Rightarrow> (False, []))"

subsection \<open>Calls on a device\<close>

text \<open>
  The public methods of a device, and the device each call leaves behind. Only
  \<open>add_service\<close> assigns to an attribute of \<open>self\<close>; the other methods read.
\<close>

datatype method_call =
  Call_add_service service
| Call_get_service protocol
| Call_services
| Call_usable_service
| Call_preferred_service
| Call_is_usable
| Call_airplay_service
| Call_eq other_object
| Call_str

fun after_call :: "AppleTV \<Rightarrow> method_call \<Rightarrow> AppleTV" where
  "after_call self (Call_add_service service) = add_service self service"
| "after_call self (Call_get_service protocol') = self"
| "after_call self Call_services = self"
| "after_call self Call_usable_service = self"
| "after_call self Call_preferred_service = self"
| "after_call self Call_is_usable = self"
| "after_call self Call_airplay_service = self"
| "after_call self (Call_eq other) = self"
| "after_call self Call_str = self"

definition after_calls :: "AppleTV \<Rightarrow> method_call list \<Rightarrow> AppleTV" where
  "after_calls self calls = foldl after_call self calls"

subsection \<open>The registry invariant\<close>

text \<open>
  Every key of the dictionary occurs once, and every service is stored under its own
  protocol.
\<close>

definition registry_invariant :: "AppleTV \<Rightarrow> bool" where
  "registry_invariant d \<longleftrightarrow>
     distinct (map fst (priv_services d)) \<and>
     list_all (\<lambda>(k, s). protocol s = k) (priv_services d)"

section \<open>Basic facts\<close>

lemmas service_defs = is_usable_def superseeded_by_def BaseService_is_usable_def
  BaseService_superseeded_by_def DmapService_is_usable_def DmapService_superseeded_by_def
  MrpService_is_usable_def py_and_def py_not_def py_of_login_id_def


text \<open>When \<open>DmapService.superseeded_by\<close> returns a true value.\<close>

lemma truthy_DmapService_superseeded_by:
  "truthy (DmapService_superseeded_by self other_service) \<longleftrightarrow>
     (\<exists>other. other_service = Some other \<and> cls other = cls self
        \<and> protocol other = protocol self \<and> port other = port self
        \<and> (\<exists>c. login_id other = Some c \<and> c \<noteq> [])
        \<and> (login_id self = None \<or> login_id self = Some []))"
  by (auto simp: DmapService_superseeded_by_def py_and_def py_not_def py_of_login_id_def
      split: option.splits)

lemma truthy_superseeded_by:
  "truthy (superseeded_by self other_service) \<longleftrightarrow>
     cls self = DmapService_class \<and>
     (\<exists>other. other_service = Some other \<and> cls other = DmapService_class
        \<and> protocol other = protocol self \<and> port other = port self
        \<and> (\<exists>c. login_id other = Some c \<and> c \<noteq> [])
        \<and> (login_id self = None \<or> login_id self = Some []))"
  by (cases "cls self")
    (auto simp: superseeded_by_def BaseService_superseeded_by_def
      truthy_DmapService_superseeded_by)

text \<open>The two paths of \<open>add_service\<close>, and what \<open>get_service\<close> reads afterwards.\<close>

lemma add_service_absent:
  "get_service d (protocol s) = None \<Longrightarrow>
   add_service d s = d\<lparr>priv_services := AList.update (protocol s) s (priv_services d)\<rparr>"
  by (simp add: get_service_def add_service_def)

lemma add_service_present:
  "get_service d (protocol s) = Some e \<Longrightarrow>
   add_service d s =
     (if truthy (superseeded_by e (Some s))
      then d\<lparr>priv_services := AList.update (protocol s) s (priv_services d)\<rparr> else d)"
  by (simp add: get_service_def add_service_def)

lemma get_service_store:
  "get_service (d\<lparr>priv_services := AList.update k s (priv_services d)\<rparr>) p =
     (if p = k then Some s else get_service d p)"
  by (simp add: get_service_def update_conv')

lemma get_service_add_service_other:
  "p \<noteq> protocol s \<Longrightarrow> get_service (add_service d s) p = get_service d p"
  by (simp add: add_service_def get_service_def update_conv' split: option.splits)


section \<open>Supersession of DMAP services\<close>




section \<open>Adding a service\<close>

lemmas constructor_defs = BaseService_def DmapService_def MrpService_def AirPlayService_def
  AppleTV_init_def SUPPORTED_PROTOCOLS_def

text \<open>
  C2: for every device \<open>d\<close> and service \<open>s\<close>: when no service is registered for the
  protocol of \<open>s\<close>, \<open>add_service\<close> registers \<open>s\<close>, and \<open>get_service\<close> of that protocol
  then returns \<open>s\<close>; when a service \<open>existing\<close> is registered for it, \<open>s\<close> is stored in
  its place exactly when \<open>existing.superseeded_by(s)\<close> is a true value, and the device
  is left as it was otherwise.
\<close>

theorem add_service_registers_or_replaces:
  "(get_service d (protocol s) = None \<longrightarrow>
      get_service (add_service d s) (protocol s) = Some s) \<and>
   (\<forall>existing. get_service d (protocol s) = Some existing \<longrightarrow>
      add_service d s =
        (if truthy (superseeded_by existing (Some s))
         then d\<lparr>priv_services := AList.update (protocol s) s (priv_services d)\<rparr>
         else d) \<and>
      get_service (add_service d s) (protocol s) =
        Some (if truthy (superseeded_by existing (Some s)) then s else existing))"
  by (simp add: add_service_absent add_service_present get_service_store)

text \<open>
  C2 on a fresh device: an MRP service is registered at once, and a DMAP service with a
  login id replaces the registered one that has none.
\<close>

theorem add_service_registers_or_replaces_witness:
  "get_service (AppleTV_init ''10.0.0.1'' ''A'' None) (protocol (MrpService 49152)) = None \<and>
   get_service (add_service (AppleTV_init ''10.0.0.1'' ''A'' None) (MrpService 49152))
     (protocol (MrpService 49152)) = Some (MrpService 49152) \<and>
   get_service (add_service (AppleTV_init ''10.0.0.1'' ''A'' None) (DmapService None None))
     (protocol (DmapService (Some ''x'') None)) = Some (DmapService None None) \<and>
   truthy (superseeded_by (DmapService None None) (Some (DmapService (Some ''x'') None))) \<and>
   get_service
     (add_service (add_service (AppleTV_init ''10.0.0.1'' ''A'' None) (DmapService None None))
        (DmapService (Some ''x'') None))
     (protocol (DmapService (Some ''x'') None)) = Some (DmapService (Some ''x'') None)"
proof -
  have h1: "get_service (AppleTV_init ''10.0.0.1'' ''A'' None) (protocol (MrpService 49152))
      = None"
    by (simp add: get_service_def AppleTV_init_def)
  have h2: "get_service
      (add_service (AppleTV_init ''10.0.0.1'' ''A'' None) (DmapService None None))
      (protocol (DmapService (Some ''x'') None)) = Some (DmapService None None)"
    by (simp add: get_service_def add_service_def AppleTV_init_def DmapService_def)
  have h3: "truthy (superseeded_by (DmapService None None)
      (Some (DmapService (Some ''x'') None)))"
    by (simp add: DmapService_def service_defs)
  from add_service_registers_or_replaces
    [of "AppleTV_init ''10.0.0.1'' ''A'' None" "MrpService 49152"] h1
  have "get_service (add_service (AppleTV_init ''10.0.0.1'' ''A'' None) (MrpService 49152))
     (protocol (MrpService 49152)) = Some (MrpService 49152)"
    by blast
  moreover
  from add_service_registers_or_replaces
    [of "add_service (AppleTV_init ''10.0.0.1'' ''A'' None) (DmapService None None)"
      "DmapService (Some ''x'') None"] h2
  have "get_service
     (add_service (add_service (AppleTV_init ''10.0.0.1'' ''A'' None) (DmapService None None))
        (DmapService (Some ''x'') None))
     (protocol (DmapService (Some ''x'') None)) =
     Some (if truthy (superseeded_by (DmapService None None)
                 (Some (DmapService (Some ''x'') None)))
           then DmapService (Some ''x'') None else DmapService None None)"
    by blast
  with h3 have "get_service
     (add_service (add_service (AppleTV_init ''10.0.0.1'' ''A'' None) (DmapService None None))
        (DmapService (Some ''x'') None))
     (protocol (DmapService (Some ''x'') None)) = Some (DmapService (Some ''x'') None)"
    by (simp only: if_True)
  ultimately show ?thesis using h1 h2 h3 by blast
qed

text \<open>
  C3: when \<open>existing\<close> is the service registered for the candidate's protocol (the one
  \<open>add_service\<close> consults) and \<open>existing.superseeded_by(candidate)\<close> is not a true value,
  \<open>add_service(candidate)\<close> returns the device as it was, so \<open>get_service\<close> answers
  every protocol as before; there is no error result. And whatever the candidate's
  protocol: a service registered under its own protocol that the candidate does not
  supersede is still what \<open>get_service\<close> returns for that protocol afterwards.
\<close>

theorem add_service_rejection_is_noop:
  "(get_service d (protocol candidate) = Some existing \<longrightarrow>
    \<not> truthy (superseeded_by existing (Some candidate)) \<longrightarrow>
      add_service d candidate = d \<and>
      (\<forall>p. get_service (add_service d candidate) p = get_service d p)) \<and>
   (get_service d (protocol existing) = Some existing \<longrightarrow>
    \<not> truthy (superseeded_by existing (Some candidate)) \<longrightarrow>
      get_service (add_service d candidate) (protocol existing) = Some existing)"
proof (intro conjI impI)
  assume a: "get_service d (protocol candidate) = Some existing"
    "\<not> truthy (superseeded_by existing (Some candidate))"
  then show "add_service d candidate = d"
    by (simp add: add_service_present)
  then show "\<forall>p. get_service (add_service d candidate) p = get_service d p"
    by simp
next
  assume a: "get_service d (protocol existing) = Some existing"
    "\<not> truthy (superseeded_by existing (Some candidate))"
  show "get_service (add_service d candidate) (protocol existing) = Some existing"
  proof (cases "protocol candidate = protocol existing")
    case True
    with a show ?thesis by (simp add: add_service_present)
  next
    case False
    with a show ?thesis by (simp add: get_service_add_service_other)
  qed
qed

text \<open>
  C3 on a device holding a DMAP service with a login id: adding one without a login id
  changes nothing.
\<close>

theorem add_service_rejection_is_noop_witness:
  "get_service (add_service (AppleTV_init ''10.0.0.1'' ''A'' None)
       (DmapService (Some ''x'') None)) (protocol (DmapService None None))
     = Some (DmapService (Some ''x'') None) \<and>
   \<not> truthy (superseeded_by (DmapService (Some ''x'') None) (Some (DmapService None None))) \<and>
   add_service (add_service (AppleTV_init ''10.0.0.1'' ''A'' None)
       (DmapService (Some ''x'') None)) (DmapService None None)
     = add_service (AppleTV_init ''10.0.0.1'' ''A'' None) (DmapService (Some ''x'') None) \<and>
   get_service (add_service (add_service (AppleTV_init ''10.0.0.1'' ''A'' None)
       (DmapService (Some ''x'') None)) (DmapService None None))
       (protocol (DmapService (Some ''x'') None)) = Some (DmapService (Some ''x'') None)"
proof -
  let ?d = "add_service (AppleTV_init ''10.0.0.1'' ''A'' None) (DmapService (Some ''x'') None)"
  have h1: "get_service ?d (protocol (DmapService None None))
     = Some (DmapService (Some ''x'') None)"
    by (simp add: get_service_def add_service_def AppleTV_init_def DmapService_def)
  have h2: "\<not> truthy (superseeded_by (DmapService (Some ''x'') None)
      (Some (DmapService None None)))"
    by (simp add: DmapService_def service_defs)
  have h3: "get_service ?d (protocol (DmapService (Some ''x'') None))
     = Some (DmapService (Some ''x'') None)"
    by (simp add: get_service_def add_service_def AppleTV_init_def DmapService_def)
  from add_service_rejection_is_noop
    [of ?d "DmapService None None" "DmapService (Some ''x'') None"] h1 h2 h3
  show ?thesis by blast
qed

section \<open>Choosing a service\<close>

text \<open>
  Both loops stop at the first protocol of the list that passes their test, so each is
  a search with \<open>find\<close>; the position of the protocol found is then the least one.
\<close>

lemma usable_service_loop_find:
  "usable_service_loop svcs ps =
     (case find (\<lambda>p. case map_of svcs p of Some s \<Rightarrow> is_usable s | None \<Rightarrow> False) ps of
        None \<Rightarrow> None | Some p \<Rightarrow> map_of svcs p)"
  by (induction ps) (auto split: option.splits)

lemma usable_service_loop_None:
  "usable_service_loop svcs ps = None \<longleftrightarrow>
     (\<forall>p\<in>set ps. \<forall>s. map_of svcs p = Some s \<longrightarrow> \<not> is_usable s)"
  by (induction ps) (auto split: option.splits)

lemma usable_service_loop_Some:
  "usable_service_loop svcs ps = Some s \<longleftrightarrow>
     (\<exists>i<length ps. map_of svcs (ps ! i) = Some s \<and> is_usable s \<and>
        (\<forall>j<i. \<forall>t. map_of svcs (ps ! j) = Some t \<longrightarrow> \<not> is_usable t))"
  (is "?L \<longleftrightarrow> ?R")
proof
  assume ?L
  then obtain p
    where p: "find (\<lambda>p. case map_of svcs p of Some s \<Rightarrow> is_usable s | None \<Rightarrow> False) ps
        = Some p"
      and s: "map_of svcs p = Some s"
    by (auto simp: usable_service_loop_find split: option.splits)
  from p obtain i where i: "i < length ps" "p = ps ! i"
      "case map_of svcs (ps ! i) of Some s \<Rightarrow> is_usable s | None \<Rightarrow> False"
      "\<forall>j<i. \<not> (case map_of svcs (ps ! j) of Some s \<Rightarrow> is_usable s | None \<Rightarrow> False)"
    by (auto simp: find_Some_iff)
  from i s have "map_of svcs (ps ! i) = Some s \<and> is_usable s" by simp
  moreover from i(4) have "\<forall>j<i. \<forall>t. map_of svcs (ps ! j) = Some t \<longrightarrow> \<not> is_usable t"
    by (auto split: option.splits)
  ultimately show ?R using i(1) by blast
next
  assume ?R
  then obtain i where i: "i < length ps" "map_of svcs (ps ! i) = Some s" "is_usable s"
      "\<forall>j<i. \<forall>t. map_of svcs (ps ! j) = Some t \<longrightarrow> \<not> is_usable t"
    by blast
  have "find (\<lambda>p. case map_of svcs p of Some s \<Rightarrow> is_usable s | None \<Rightarrow> False) ps
      = Some (ps ! i)"
    unfolding find_Some_iff
    using i by (intro exI [of _ i]) (auto split: option.splits)
  then show ?L by (simp add: usable_service_loop_find i)
qed

lemma preferred_service_loop_find:
  "preferred_service_loop svcs ps =
     (case find (\<lambda>p. map_of svcs p \<noteq> None) ps of
        None \<Rightarrow> None | Some p \<Rightarrow> map_of svcs p)"
  by (induction ps) (auto split: option.splits)

lemma preferred_service_loop_None:
  "preferred_service_loop svcs ps = None \<longleftrightarrow> (\<forall>p\<in>set ps. map_of svcs p = None)"
  by (induction ps) (auto split: option.splits)

lemma preferred_service_loop_Some:
  "preferred_service_loop svcs ps = Some s \<longleftrightarrow>
     (\<exists>i<length ps. map_of svcs (ps ! i) = Some s \<and>
        (\<forall>j<i. map_of svcs (ps ! j) = None))"
  (is "?L \<longleftrightarrow> ?R")
proof
  assume ?L
  then obtain p where p: "find (\<lambda>p. map_of svcs p \<noteq> None) ps = Some p"
      and s: "map_of svcs p = Some s"
    by (auto simp: preferred_service_loop_find split: option.splits)
  from p obtain i where i: "i < length ps" "p = ps ! i"
      "\<forall>j<i. map_of svcs (ps ! j) = None"
    by (auto simp: find_Some_iff)
  with s show ?R by blast
next
  assume ?R
  then obtain i where i: "i < length ps" "map_of svcs (ps ! i) = Some s"
      "\<forall>j<i. map_of svcs (ps ! j) = None"
    by blast
  have "find (\<lambda>p. map_of svcs p \<noteq> None) ps = Some (ps ! i)"
    unfolding find_Some_iff
    using i by (intro exI [of _ i]) auto
  then show ?L by (simp add: preferred_service_loop_find i)
qed

text \<open>
  C4: \<open>usable_service\<close> goes through the supported protocols in order and returns the
  first service that is registered and usable: it returns \<open>None\<close> exactly when no
  protocol of the list has a registered usable service, and it returns \<open>s\<close> exactly
  when \<open>s\<close> is registered and usable at some position of the list and no earlier
  position has a registered usable service. In particular, with the order \<open>[X, Y]\<close>
  and usable services registered under both, it returns the one under \<open>X\<close>.
\<close>

theorem usable_service_first_usable:
  "(usable_service d = None \<longleftrightarrow>
      (\<forall>p\<in>set (priv_supported_protocols d).
         \<forall>s. get_service d p = Some s \<longrightarrow> \<not> is_usable s)) \<and>
   (\<forall>s. usable_service d = Some s \<longleftrightarrow>
      (\<exists>i<length (priv_supported_protocols d).
         get_service d (priv_supported_protocols d ! i) = Some s \<and> is_usable s \<and>
         (\<forall>j<i. \<forall>t. get_service d (priv_supported_protocols d ! j) = Some t
            \<longrightarrow> \<not> is_usable t))) \<and>
   (priv_supported_protocols d = [X, Y] \<longrightarrow>
    get_service d X = Some sx \<longrightarrow> is_usable sx \<longrightarrow>
    get_service d Y = Some sy \<longrightarrow> is_usable sy \<longrightarrow> usable_service d = Some sx)"
proof (intro conjI allI impI)
  show "usable_service d = None \<longleftrightarrow>
      (\<forall>p\<in>set (priv_supported_protocols d).
         \<forall>s. get_service d p = Some s \<longrightarrow> \<not> is_usable s)"
    by (simp add: usable_service_def get_service_def usable_service_loop_None)
next
  fix s
  show "usable_service d = Some s \<longleftrightarrow>
      (\<exists>i<length (priv_supported_protocols d).
         get_service d (priv_supported_protocols d ! i) = Some s \<and> is_usable s \<and>
         (\<forall>j<i. \<forall>t. get_service d (priv_supported_protocols d ! j) = Some t
            \<longrightarrow> \<not> is_usable t))"
    by (simp add: usable_service_def get_service_def usable_service_loop_Some)
next
  assume "priv_supported_protocols d = [X, Y]" "get_service d X = Some sx" "is_usable sx"
  then show "usable_service d = Some sx"
    by (simp add: usable_service_def get_service_def)
qed

text \<open>
  C4 on devices with the default order: with a paired DMAP service and an MRP service
  registered, the MRP service is chosen; with an unpaired DMAP service alone, nothing is.
\<close>

theorem usable_service_first_usable_witness:
  "priv_supported_protocols
     (add_service (add_service (AppleTV_init ''10.0.0.1'' ''A'' None)
        (DmapService (Some ''x'') None)) (MrpService 49152))
     = [PROTOCOL_MRP, PROTOCOL_DMAP] \<and>
   get_service
     (add_service (add_service (AppleTV_init ''10.0.0.1'' ''A'' None)
        (DmapService (Some ''x'') None)) (MrpService 49152)) PROTOCOL_MRP
     = Some (MrpService 49152) \<and>
   is_usable (MrpService 49152) \<and>
   get_service
     (add_service (add_service (AppleTV_init ''10.0.0.1'' ''A'' None)
        (DmapService (Some ''x'') None)) (MrpService 49152)) PROTOCOL_DMAP
     = Some (DmapService (Some ''x'') None) \<and>
   is_usable (DmapService (Some ''x'') None) \<and>
   usable_service
     (add_service (add_service (AppleTV_init ''10.0.0.1'' ''A'' None)
        (DmapService (Some ''x'') None)) (MrpService 49152))
     = Some (MrpService 49152) \<and>
   usable_service (add_service (AppleTV_init ''10.0.0.1'' ''A'' None) (DmapService None None))
     = None"
proof -
  let ?d = "add_service (add_service (AppleTV_init ''10.0.0.1'' ''A'' None)
        (DmapService (Some ''x'') None)) (MrpService 49152)"
  let ?e = "add_service (AppleTV_init ''10.0.0.1'' ''A'' None) (DmapService None None)"
  have h1: "priv_supported_protocols ?d = [PROTOCOL_MRP, PROTOCOL_DMAP]"
    by (simp add: add_service_def constructor_defs)
  have h2: "get_service ?d PROTOCOL_MRP = Some (MrpService 49152)"
    by (simp add: add_service_def get_service_def constructor_defs)
  have h3: "is_usable (MrpService 49152)"
    by (simp add: MrpService_def service_defs)
  have h4: "get_service ?d PROTOCOL_DMAP = Some (DmapService (Some ''x'') None)"
    by (simp add: add_service_def get_service_def constructor_defs)
  have h5: "is_usable (DmapService (Some ''x'') None)"
    by (simp add: DmapService_def service_defs)
  have h6: "\<forall>p\<in>set (priv_supported_protocols ?e).
      \<forall>s. get_service ?e p = Some s \<longrightarrow> \<not> is_usable s"
    by (simp add: add_service_def get_service_def constructor_defs service_defs)
  from usable_service_first_usable [of ?d PROTOCOL_MRP PROTOCOL_DMAP "MrpService 49152"
      "DmapService (Some ''x'') None"] h1 h2 h3 h4 h5
  have "usable_service ?d = Some (MrpService 49152)" by blast
  moreover from usable_service_first_usable [of ?e] h6
  have "usable_service ?e = None" by blast
  ultimately show ?thesis using h1 h2 h3 h4 h5 by blast
qed

text \<open>
  C5: \<open>preferred_service\<close> goes through the supported protocols in order and returns
  the first registered service, usable or not: it returns \<open>None\<close> exactly when no
  protocol of the list has a registered service, and it returns \<open>s\<close> exactly when \<open>s\<close>
  is registered at some position of the list and nothing is registered at an earlier
  position. So with the order \<open>[X, Y]\<close>, an unusable service under \<open>X\<close> and a usable
  one under \<open>Y\<close>, \<open>preferred_service\<close> returns the service under \<open>X\<close> and
  \<open>usable_service\<close> the one under \<open>Y\<close>.
\<close>

theorem preferred_service_first_registered:
  "(preferred_service d = None \<longleftrightarrow>
      (\<forall>p\<in>set (priv_supported_protocols d). get_service d p = None)) \<and>
   (\<forall>s. preferred_service d = Some s \<longleftrightarrow>
      (\<exists>i<length (priv_supported_protocols d).
         get_service d (priv_supported_protocols d ! i) = Some s \<and>
         (\<forall>j<i. get_service d (priv_supported_protocols d ! j) = None))) \<and>
   (priv_supported_protocols d = [X, Y] \<longrightarrow>
    get_service d X = Some sx \<longrightarrow> \<not> is_usable sx \<longrightarrow>
    get_service d Y = Some sy \<longrightarrow> is_usable sy \<longrightarrow>
      preferred_service d = Some sx \<and> usable_service d = Some sy)"
proof (intro conjI allI impI)
  show "preferred_service d = None \<longleftrightarrow>
      (\<forall>p\<in>set (priv_supported_protocols d). get_service d p = None)"
    by (simp add: preferred_service_def get_service_def preferred_service_loop_None)
next
  fix s
  show "preferred_service d = Some s \<longleftrightarrow>
      (\<exists>i<length (priv_supported_protocols d).
         get_service d (priv_supported_protocols d ! i) = Some s \<and>
         (\<forall>j<i. get_service d (priv_supported_protocols d ! j) = None))"
    by (simp add: preferred_service_def get_service_def preferred_service_loop_Some)
next
  assume a: "priv_supported_protocols d = [X, Y]" "get_service d X = Some sx"
    "\<not> is_usable sx" "get_service d Y = Some sy" "is_usable sy"
  then show "preferred_service d = Some sx"
    by (simp add: preferred_service_def get_service_def)
  from a show "usable_service d = Some sy"
    by (simp add: usable_service_def get_service_def)
qed

text \<open>
  C5 on a device that prefers DMAP to MRP and holds an unpaired DMAP service and an MRP
  service, and on a device that holds an AirPlay service only.
\<close>

theorem preferred_service_first_registered_witness:
  "priv_supported_protocols
     (add_service (add_service
        (AppleTV_init ''10.0.0.1'' ''A'' (Some [PROTOCOL_DMAP, PROTOCOL_MRP]))
        (DmapService None None)) (MrpService 49152))
     = [PROTOCOL_DMAP, PROTOCOL_MRP] \<and>
   get_service
     (add_service (add_service
        (AppleTV_init ''10.0.0.1'' ''A'' (Some [PROTOCOL_DMAP, PROTOCOL_MRP]))
        (DmapService None None)) (MrpService 49152)) PROTOCOL_DMAP
     = Some (DmapService None None) \<and>
   \<not> is_usable (DmapService None None) \<and>
   get_service
     (add_service (add_service
        (AppleTV_init ''10.0.0.1'' ''A'' (Some [PROTOCOL_DMAP, PROTOCOL_MRP]))
        (DmapService None None)) (MrpService 49152)) PROTOCOL_MRP
     = Some (MrpService 49152) \<and>
   is_usable (MrpService 49152) \<and>
   preferred_service
     (add_service (add_service
        (AppleTV_init ''10.0.0.1'' ''A'' (Some [PROTOCOL_DMAP, PROTOCOL_MRP]))
        (DmapService None None)) (MrpService 49152))
     = Some (DmapService None None) \<and>
   usable_service
     (add_service (add_service
        (AppleTV_init ''10.0.0.1'' ''A'' (Some [PROTOCOL_DMAP, PROTOCOL_MRP]))
        (DmapService None None)) (MrpService 49152))
     = Some (MrpService 49152) \<and>
   preferred_service
     (add_service (AppleTV_init ''10.0.0.1'' ''A'' None) (AirPlayService 7000)) = None"
proof -
  let ?d = "add_service (add_service
        (AppleTV_init ''10.0.0.1'' ''A'' (Some [PROTOCOL_DMAP, PROTOCOL_MRP]))
        (DmapService None None)) (MrpService 49152)"
  let ?e = "add_service (AppleTV_init ''10.0.0.1'' ''A'' None) (AirPlayService 7000)"
  have h1: "priv_supported_protocols ?d = [PROTOCOL_DMAP, PROTOCOL_MRP]"
    by (simp add: add_service_def constructor_defs)
  have h2: "get_service ?d PROTOCOL_DMAP = Some (DmapService None None)"
    by (simp add: add_service_def get_service_def constructor_defs)
  have h3: "\<not> is_usable (DmapService None None)"
    by (simp add: DmapService_def service_defs)
  have h4: "get_service ?d PROTOCOL_MRP = Some (MrpService 49152)"
    by (simp add: add_service_def get_service_def constructor_defs)
  have h5: "is_usable (MrpService 49152)"
    by (simp add: MrpService_def service_defs)
  have h6: "\<forall>p\<in>set (priv_supported_protocols ?e). get_service ?e p = None"
    by (simp add: add_service_def get_service_def constructor_defs)
  from preferred_service_first_registered [of ?d PROTOCOL_DMAP PROTOCOL_MRP
      "DmapService None None" "MrpService 49152"] h1 h2 h3 h4 h5
  have "preferred_service ?d = Some (DmapService None None) \<and>
      usable_service ?d = Some (MrpService 49152)"
    by blast
  moreover from preferred_service_first_registered [of ?e] h6
  have "preferred_service ?e = None" by blast
  ultimately show ?thesis using h1 h2 h3 h4 h5 by blast
qed

section \<open>The AirPlay service\<close>

text \<open>
  C6: \<open>airplay_service\<close> returns the service registered for the AirPlay protocol when
  there is one; otherwise it returns a default service of class \<open>AirPlayService\<close> with
  the AirPlay protocol and port 7000, and the call leaves the device as it was:
  \<open>get_service\<close> of the AirPlay protocol is still \<open>None\<close> afterwards, and
  \<open>get_service\<close> answers every protocol as before.
\<close>

theorem airplay_service_default_not_registered:
  "(\<forall>s. get_service d PROTOCOL_AIRPLAY = Some s \<longrightarrow> airplay_service d = s) \<and>
   (get_service d PROTOCOL_AIRPLAY = None \<longrightarrow>
      airplay_service d = AirPlayService 7000 \<and>
      cls (airplay_service d) = AirPlayService_class \<and>
      protocol (airplay_service d) = PROTOCOL_AIRPLAY \<and>
      port (airplay_service d) = 7000 \<and>
      get_service (after_call d Call_airplay_service) PROTOCOL_AIRPLAY = None) \<and>
   after_call d Call_airplay_service = d \<and>
   (\<forall>p. get_service (after_call d Call_airplay_service) p = get_service d p)"
  by (simp add: airplay_service_def get_service_def AirPlayService_def)

text \<open>
  C6 on a device with an AirPlay service at port 7001, and on a device with an MRP
  service only.
\<close>

theorem airplay_service_default_not_registered_witness:
  "get_service (add_service (AppleTV_init ''10.0.0.1'' ''A'' None) (AirPlayService 7001))
     PROTOCOL_AIRPLAY = Some (AirPlayService 7001) \<and>
   airplay_service (add_service (AppleTV_init ''10.0.0.1'' ''A'' None) (AirPlayService 7001))
     = AirPlayService 7001 \<and>
   get_service (add_service (AppleTV_init ''10.0.0.1'' ''A'' None) (MrpService 49152))
     PROTOCOL_AIRPLAY = None \<and>
   airplay_service (add_service (AppleTV_init ''10.0.0.1'' ''A'' None) (MrpService 49152))
     = AirPlayService 7000 \<and>
   port (airplay_service
     (add_service (AppleTV_init ''10.0.0.1'' ''A'' None) (MrpService 49152))) = 7000 \<and>
   get_service
     (after_call (add_service (AppleTV_init ''10.0.0.1'' ''A'' None) (MrpService 49152))
        Call_airplay_service) PROTOCOL_AIRPLAY = None"
proof -
  let ?a = "add_service (AppleTV_init ''10.0.0.1'' ''A'' None) (AirPlayService 7001)"
  let ?b = "add_service (AppleTV_init ''10.0.0.1'' ''A'' None) (MrpService 49152)"
  have h1: "get_service ?a PROTOCOL_AIRPLAY = Some (AirPlayService 7001)"
    by (simp add: add_service_def get_service_def constructor_defs)
  have h2: "get_service ?b PROTOCOL_AIRPLAY = None"
    by (simp add: add_service_def get_service_def constructor_defs)
  from airplay_service_default_not_registered [of ?a] h1
  have "airplay_service ?a = AirPlayService 7001"
    by blast
  moreover from airplay_service_default_not_registered [of ?b] h2
  have "airplay_service ?b = AirPlayService 7000 \<and> port (airplay_service ?b) = 7000 \<and>
    get_service (after_call ?b Call_airplay_service) PROTOCOL_AIRPLAY = None"
    by blast
  ultimately show ?thesis using h1 h2 by blast
qed

section \<open>Services that are never replaced\<close>

text \<open>
  Only a \<open>DmapService\<close> can be superseded: an entry of any other class survives every
  call.
\<close>

lemma add_service_keeps_entry:
  assumes "get_service d P = Some m" "cls m \<noteq> DmapService_class"
  shows "get_service (add_service d s) P = Some m"
proof (cases "protocol s = P")
  case True
  with assms show ?thesis
    by (simp add: add_service_present truthy_superseeded_by)
next
  case False
  with assms show ?thesis by (simp add: get_service_add_service_other)
qed

lemma after_call_keeps_entry:
  "get_service d P = Some m \<Longrightarrow> cls m \<noteq> DmapService_class \<Longrightarrow>
   get_service (after_call d c) P = Some m"
  by (cases c) (simp_all add: add_service_keeps_entry)

lemma after_calls_keeps_entry:
  "get_service d P = Some m \<Longrightarrow> cls m \<noteq> DmapService_class \<Longrightarrow>
   get_service (after_calls d cs) P = Some m"
  unfolding after_calls_def
  by (induction cs arbitrary: d) (simp_all add: after_call_keeps_entry)

text \<open>
  C7: once an \<open>MrpService\<close> \<open>m\<close> is registered for the MRP protocol, no later call
  replaces it: \<open>superseeded_by\<close> of \<open>m\<close> is never a true value (it is the method of
  \<open>BaseService\<close>), and after every sequence \<open>ss\<close> of services passed to \<open>add_service\<close>,
  and after every sequence \<open>cs\<close> of method calls, \<open>get_service\<close> of the MRP protocol
  still returns \<open>m\<close>.
\<close>

theorem mrp_service_never_replaced:
  "get_service d PROTOCOL_MRP = Some m \<Longrightarrow> cls m = MrpService_class \<Longrightarrow>
   (\<forall>other. superseeded_by m other = PyBool False) \<and>
   get_service (foldl add_service d ss) PROTOCOL_MRP = Some m \<and>
   get_service (after_calls d cs) PROTOCOL_MRP = Some m"
proof (intro conjI)
  assume a: "get_service d PROTOCOL_MRP = Some m" "cls m = MrpService_class"
  then show "\<forall>other. superseeded_by m other = PyBool False"
    by (simp add: superseeded_by_def BaseService_superseeded_by_def)
  from a show "get_service (after_calls d cs) PROTOCOL_MRP = Some m"
    by (simp add: after_calls_keeps_entry)
  from a show "get_service (foldl add_service d ss) PROTOCOL_MRP = Some m"
    by (induction ss arbitrary: d) (simp_all add: add_service_keeps_entry)
qed

text \<open>
  C7 on a fresh device: the MRP service at port 49152 stays through three more
  \<open>add_service\<close> calls, two of them with other MRP services.
\<close>

theorem mrp_service_never_replaced_witness:
  "get_service (add_service (AppleTV_init ''10.0.0.1'' ''A'' None) (MrpService 49152))
     PROTOCOL_MRP = Some (MrpService 49152) \<and>
   cls (MrpService 49152) = MrpService_class \<and>
   get_service
     (foldl add_service
        (add_service (AppleTV_init ''10.0.0.1'' ''A'' None) (MrpService 49152))
        [MrpService 1, DmapService (Some ''x'') None, MrpService 2])
     PROTOCOL_MRP = Some (MrpService 49152) \<and>
   get_service
     (after_calls
        (add_service (AppleTV_init ''10.0.0.1'' ''A'' None) (MrpService 49152))
        [Call_add_service (MrpService 1), Call_airplay_service,
         Call_add_service (MrpService 2)])
     PROTOCOL_MRP = Some (MrpService 49152)"
proof -
  let ?d = "add_service (AppleTV_init ''10.0.0.1'' ''A'' None) (MrpService 49152)"
  have h1: "get_service ?d PROTOCOL_MRP = Some (MrpService 49152)"
    by (simp add: add_service_def get_service_def constructor_defs)
  have h2: "cls (MrpService 49152) = MrpService_class"
    by (simp add: MrpService_def)
  from mrp_service_never_replaced
    [OF h1 h2, of "[MrpService 1, DmapService (Some ''x'') None, MrpService 2]"
      "[Call_add_service (MrpService 1), Call_airplay_service,
        Call_add_service (MrpService 2)]"] h1 h2
  show ?thesis by blast
qed

section \<open>The registry invariant is kept\<close>

lemma list_all_update:
  "list_all Q al \<Longrightarrow> Q (k, v) \<Longrightarrow> list_all Q (AList.update k v al)"
  by (induction al) auto

lemma registry_invariant_init: "registry_invariant (AppleTV_init a n kw)"
  by (simp add: registry_invariant_def AppleTV_init_def)

lemma registry_invariant_add_service:
  "registry_invariant d \<Longrightarrow> registry_invariant (add_service d s)"
  by (auto simp: registry_invariant_def add_service_def distinct_update list_all_update
      split: option.splits)

lemma registry_invariant_after_call:
  "registry_invariant d \<Longrightarrow> registry_invariant (after_call d c)"
  by (cases c) (simp_all add: registry_invariant_add_service)

lemma registry_invariant_after_calls:
  "registry_invariant d \<Longrightarrow> registry_invariant (after_calls d cs)"
  unfolding after_calls_def
  by (induction cs arbitrary: d) (simp_all add: registry_invariant_after_call)

lemma keys_of_matching_entries:
  "list_all (\<lambda>(k, s). protocol s = k) al \<Longrightarrow> map protocol (map snd al) = map fst al"
  by (induction al) auto

lemma entry_of_matching_entries:
  "list_all (\<lambda>(k, s). protocol s = k) al \<Longrightarrow> (P, s) \<in> set al \<Longrightarrow> protocol s = P"
  by (induction al) auto

lemma registry_invariant_distinct_protocols:
  assumes "registry_invariant d"
  shows "distinct (map protocol (services d))"
proof -
  from assms have "list_all (\<lambda>(k, s). protocol s = k) (priv_services d)"
    by (simp add: registry_invariant_def)
  then have "map protocol (map snd (priv_services d)) = map fst (priv_services d)"
    by (rule keys_of_matching_entries)
  moreover from assms have "distinct (map fst (priv_services d))"
    by (simp add: registry_invariant_def)
  ultimately show ?thesis by (simp only: services_def)
qed

lemma registry_invariant_get_service:
  assumes "registry_invariant d" "get_service d P = Some s"
  shows "protocol s = P"
proof -
  from assms(2) have "(P, s) \<in> set (priv_services d)"
    by (simp add: get_service_def map_of_SomeD)
  moreover from assms(1) have "list_all (\<lambda>(k, s). protocol s = k) (priv_services d)"
    by (simp add: registry_invariant_def)
  ultimately show ?thesis by (rule entry_of_matching_entries [rotated])
qed

text \<open>
  C8: after any sequence of method calls on a freshly constructed device (whose registry
  is empty), the device holds at most one service per protocol id: the keys of the
  dictionary are pairwise distinct, and so are the protocols of the services that
  \<open>services\<close> lists. And every service that \<open>get_service\<close> returns for a protocol id
  \<open>P\<close> has \<open>P\<close> in its \<open>protocol\<close> field.
\<close>

theorem registry_one_service_per_protocol:
  "priv_services (AppleTV_init a n kw) = [] \<and>
   registry_invariant (after_calls (AppleTV_init a n kw) cs) \<and>
   distinct (map fst (priv_services (after_calls (AppleTV_init a n kw) cs))) \<and>
   distinct (map protocol (services (after_calls (AppleTV_init a n kw) cs))) \<and>
   (\<forall>P s. get_service (after_calls (AppleTV_init a n kw) cs) P = Some s
      \<longrightarrow> protocol s = P)"
proof -
  have inv: "registry_invariant (after_calls (AppleTV_init a n kw) cs)"
    by (simp add: registry_invariant_init registry_invariant_after_calls)
  then have "distinct (map fst (priv_services (after_calls (AppleTV_init a n kw) cs)))"
    by (simp add: registry_invariant_def)
  moreover from inv
  have "distinct (map protocol (services (after_calls (AppleTV_init a n kw) cs)))"
    by (rule registry_invariant_distinct_protocols)
  moreover from inv
  have "\<forall>P s. get_service (after_calls (AppleTV_init a n kw) cs) P = Some s
      \<longrightarrow> protocol s = P"
    by (blast intro: registry_invariant_get_service)
  moreover have "priv_services (AppleTV_init a n kw) = []"
    by (simp add: AppleTV_init_def)
  ultimately show ?thesis using inv by blast
qed

text \<open>
  C8 after four calls, three of them \<open>add_service\<close> with two DMAP services among them:
  the DMAP entry is the paired service, stored under its own protocol, and the two
  services listed have different protocols.
\<close>

theorem registry_one_service_per_protocol_witness:
  "get_service
     (after_calls (AppleTV_init ''10.0.0.1'' ''A'' None)
        [Call_add_service (DmapService None None), Call_add_service (MrpService 49152),
         Call_add_service (DmapService (Some ''x'') None), Call_airplay_service])
     PROTOCOL_DMAP = Some (DmapService (Some ''x'') None) \<and>
   protocol (DmapService (Some ''x'') None) = PROTOCOL_DMAP \<and>
   services
     (after_calls (AppleTV_init ''10.0.0.1'' ''A'' None)
        [Call_add_service (DmapService None None), Call_add_service (MrpService 49152),
         Call_add_service (DmapService (Some ''x'') None), Call_airplay_service])
     = [DmapService (Some ''x'') None, MrpService 49152] \<and>
   distinct (map protocol (services
     (after_calls (AppleTV_init ''10.0.0.1'' ''A'' None)
        [Call_add_service (DmapService None None), Call_add_service (MrpService 49152),
         Call_add_service (DmapService (Some ''x'') None), Call_airplay_service])))"
proof -
  let ?cs = "[Call_add_service (DmapService None None), Call_add_service (MrpService 49152),
         Call_add_service (DmapService (Some ''x'') None), Call_airplay_service]"
  have h1: "get_service (after_calls (AppleTV_init ''10.0.0.1'' ''A'' None) ?cs)
      PROTOCOL_DMAP = Some (DmapService (Some ''x'') None)"
    by (simp add: after_calls_def add_service_def get_service_def constructor_defs
        service_defs)
  have h2: "services (after_calls (AppleTV_init ''10.0.0.1'' ''A'' None) ?cs)
      = [DmapService (Some ''x'') None, MrpService 49152]"
    by (simp add: after_calls_def add_service_def services_def constructor_defs
        service_defs)
  from registry_one_service_per_protocol [of "''10.0.0.1''" "''A''" None ?cs] h1 h2
  show ?thesis by blast
qed

section \<open>Equality of devices\<close>

text \<open>
  C9: two devices compare equal exactly when their addresses are equal; the name and
  the registered services play no part (the two devices are arbitrary). In particular
  the device at 10.0.0.1 named A equals the device at 10.0.0.1 named B, and does not
  equal the device at 10.0.0.2 named A. The comparison is the first component of the
  result; the second is the line the method prints.
\<close>

theorem AppleTV_eq_compares_address_only:
  "fst (AppleTV_eq d1 (AppleTV_instance d2)) = (address d1 = address d2) \<and>
   fst (AppleTV_eq (AppleTV_init ''10.0.0.1'' ''A'' kw1)
          (AppleTV_instance (AppleTV_init ''10.0.0.1'' ''B'' kw2))) \<and>
   \<not> fst (AppleTV_eq (AppleTV_init ''10.0.0.1'' ''A'' kw1)
          (AppleTV_instance (AppleTV_init ''10.0.0.2'' ''A'' kw2)))"
  by (simp add: AppleTV_eq_def AppleTV_init_def)

section \<open>The empty login id\<close>



end
